theory Spec2Isabelle
  imports Main "HOL-Library.Sublist" "HOL-Library.AList"
begin

section \<open>Strings and numbers of the host language\<close>

text \<open>
  Source strings are modelled as \<^typ>\<open>string\<close>: a list of characters whose \<open>length\<close> is
  the number of code units, as the source's \<open>.length\<close> is on text whose code points are
  below 256. Source numbers that are counts or durations in milliseconds are modelled as
  \<^typ>\<open>int\<close>; the one place where the source can produce \<open>NaN\<close> (\<open>parseInt\<close> of a header)
  is modelled as \<^typ>\<open>int option\<close> with \<open>None\<close> for \<open>NaN\<close>.
\<close>

definition is_digit :: "char \<Rightarrow> bool" where
  "is_digit c = (let n = (of_char c :: nat) in 48 \<le> n \<and> n \<le> 57)"


text \<open>White space and line terminators removed by \<open>String.prototype.trim\<close> and skipped by
  \<open>parseInt\<close>, as far as they lie below code point 256: TAB, LF, VT, FF, CR, SP, NBSP.\<close>

definition is_space :: "char \<Rightarrow> bool" where
  "is_space c = (of_char c \<in> {9::nat, 10, 11, 12, 13, 32, 160})"

definition trim :: "string \<Rightarrow> string" where
  "trim s = rev (dropWhile is_space (rev (dropWhile is_space s)))"

text \<open>\<open>s.includes(t)\<close>: \<open>t\<close> occurs in \<open>s\<close> as a contiguous block.\<close>

fun str_includes :: "string \<Rightarrow> string \<Rightarrow> bool" where
  "str_includes [] t = (t = [])"
| "str_includes (c # cs) t = (prefix t (c # cs) \<or> str_includes cs t)"

text \<open>The decimal digit for a value below ten.\<close>

definition digit_char :: "nat \<Rightarrow> char" where
  "digit_char d = ''0123456789'' ! d"

fun show_nat :: "nat \<Rightarrow> string" where
  "show_nat n = (if n < 10 then [digit_char n] else show_nat (n div 10) @ [digit_char (n mod 10)])"

declare show_nat.simps [simp del]

text \<open>Template-literal rendering of an integer-valued number.\<close>

definition show_int :: "int \<Rightarrow> string" where
  "show_int i = (if i < 0 then CHR ''-'' # show_nat (nat (- i)) else show_nat (nat i))"

text \<open>Rendering of a number that may be \<open>NaN\<close>.\<close>

definition show_num :: "int option \<Rightarrow> string" where
  "show_num x = (case x of None \<Rightarrow> ''NaN'' | Some i \<Rightarrow> show_int i)"

definition digit_val :: "char \<Rightarrow> int" where
  "digit_val c = int (of_char c) - 48"

definition digits_value :: "string \<Rightarrow> int" where
  "digits_value ds = foldl (\<lambda>acc c. 10 * acc + digit_val c) 0 ds"

text \<open>\<open>parseInt(s, 10)\<close>: skip leading white space, read an optional sign, read the longest
  run of decimal digits; with no digit the result is \<open>NaN\<close>.\<close>

definition parseInt10 :: "string \<Rightarrow> int option" where
  "parseInt10 s =
    (let t = dropWhile is_space s;
         neg = (t \<noteq> [] \<and> hd t = CHR ''-'');
         u = (if t \<noteq> [] \<and> (hd t = CHR ''-'' \<or> hd t = CHR ''+'') then tl t else t);
         ds = takeWhile is_digit u
     in if ds = [] then None
        else Some (if neg then - digits_value ds else digits_value ds))"

text \<open>Arithmetic on numbers that may be \<open>NaN\<close>: \<open>NaN\<close> is absorbing, also for \<open>Math.max\<close>.\<close>

definition js_times :: "int option \<Rightarrow> int \<Rightarrow> int option" where
  "js_times x k = map_option (\<lambda>i. i * k) x"

definition js_max :: "int option \<Rightarrow> int \<Rightarrow> int option" where
  "js_max x y = map_option (\<lambda>i. max i y) x"

text \<open>Division by 1000 of a number that is a multiple of 1000 (or \<open>NaN\<close>).\<close>

definition js_div1000 :: "int option \<Rightarrow> int option" where
  "js_div1000 x = map_option (\<lambda>i. i div 1000) x"

section \<open>Error taxonomy (errors.ts)\<close>

record RateLimitInfo =
  minutelyRemaining :: int
  hourlyRemaining :: int
  dailyRemaining :: int
  resetsAt_minute :: int
  resetsAt_hour :: int
  resetsAt_day :: int

text \<open>The \<open>details\<close> field has type \<open>any\<close> in the source; it is carried around and never
  inspected, so it is modelled by an opaque text.\<close>

type_synonym details = string

text \<open>
  One constructor per error class. \<open>JsError name message\<close> stands for every error object
  that is not one of the library's classes: the plain \<open>Error\<close> thrown by the HTTP client's
  constructor and by the end of the retry loop, the \<open>TypeError\<close> of a failed fetch, an
  \<open>AbortError\<close>, the \<open>SyntaxError\<close> of a body that is not JSON.
\<close>

datatype sdk_error =
    AuthenticationError string
  | RateLimitError string RateLimitInfo "int option"
  | ValidationError string "details option"
  | NetworkError string int "details option"
  | TimeoutError int
  | ConfigurationError string
  | JsError string string

fun code_of :: "sdk_error \<Rightarrow> string option" where
  "code_of (AuthenticationError m) = Some ''AUTHENTICATION_ERROR''"
| "code_of (RateLimitError m l ra) = Some ''RATE_LIMIT_ERROR''"
| "code_of (ValidationError m d) = Some ''VALIDATION_ERROR''"
| "code_of (NetworkError m s d) = Some ''NETWORK_ERROR''"
| "code_of (TimeoutError t) = Some ''TIMEOUT_ERROR''"
| "code_of (ConfigurationError m) = None"
| "code_of (JsError n m) = None"

text \<open>\<open>this.name = this.constructor.name\<close>: the class name.\<close>

fun name_of :: "sdk_error \<Rightarrow> string" where
  "name_of (AuthenticationError m) = ''AuthenticationError''"
| "name_of (RateLimitError m l ra) = ''RateLimitError''"
| "name_of (ValidationError m d) = ''ValidationError''"
| "name_of (NetworkError m s d) = ''NetworkError''"
| "name_of (TimeoutError t) = ''TimeoutError''"
| "name_of (ConfigurationError m) = ''ConfigurationError''"
| "name_of (JsError n m) = n"

fun message_of :: "sdk_error \<Rightarrow> string" where
  "message_of (AuthenticationError m) = m"
| "message_of (RateLimitError m l ra) = m"
| "message_of (ValidationError m d) = m"
| "message_of (NetworkError m s d) = m"
| "message_of (TimeoutError t) = ''Request timed out after '' @ show_int t @ ''ms''"
| "message_of (ConfigurationError m) = m"
| "message_of (JsError n m) = m"

fun statusCode_of :: "sdk_error \<Rightarrow> int option" where
  "statusCode_of (AuthenticationError m) = Some 401"
| "statusCode_of (RateLimitError m l ra) = Some 429"
| "statusCode_of (ValidationError m d) = Some 400"
| "statusCode_of (NetworkError m s d) = Some s"
| "statusCode_of (TimeoutError t) = Some 408"
| "statusCode_of (ConfigurationError m) = None"
| "statusCode_of (JsError n m) = None"

text \<open>\<open>(error as any).limits\<close>: defined on a rate-limit error only.\<close>

fun limits_of :: "sdk_error \<Rightarrow> RateLimitInfo option" where
  "limits_of (RateLimitError m l ra) = Some l"
| "limits_of e = None"

datatype error_kind =
  Authentication | RateLimit | Validation | Network | Timeout | Configuration | Foreign

fun kind_of :: "sdk_error \<Rightarrow> error_kind" where
  "kind_of (AuthenticationError m) = Authentication"
| "kind_of (RateLimitError m l ra) = RateLimit"
| "kind_of (ValidationError m d) = Validation"
| "kind_of (NetworkError m s d) = Network"
| "kind_of (TimeoutError t) = Timeout"
| "kind_of (ConfigurationError m) = Configuration"
| "kind_of (JsError n m) = Foreign"

section \<open>HTTP responses and \<open>createErrorFromResponse\<close>\<close>

text \<open>
  A decoded JSON body. The source reads three properties of it (\<open>error\<close>, \<open>details\<close>,
  \<open>limits\<close>), each possibly absent; the remainder of the value is the opaque text
  \<open>other\<close>. A value without any of the three (a number, a string, an empty object) is a
  \<open>JObject\<close> with all three absent. Reading a property of \<open>null\<close> throws, so \<open>null\<close> has
  its own constructor.
\<close>

datatype json =
    JNull
  | JObject (error_field: "string option") (details_field: "details option")
      (limits_field: "RateLimitInfo option") (other: string)

text \<open>\<open>response.json()\<close> either rejects with an error or yields the decoded value.\<close>

datatype body = NotJson sdk_error | Json json

record http_response =
  status :: int
  statusText :: string
  retryAfterHeader :: "string option"
  content :: body

text \<open>\<open>response.ok\<close> of the Fetch API: the status is in the range 200 to 299.\<close>

definition ok :: "http_response \<Rightarrow> bool" where
  "ok r = (200 \<le> status r \<and> status r \<le> 299)"

text \<open>\<open>response.headers.get('Retry-After') || '60'\<close>: an absent or empty header gives
  the default.\<close>

definition retryAfter_or_default :: "http_response \<Rightarrow> string" where
  "retryAfter_or_default r =
    (case retryAfterHeader r of None \<Rightarrow> ''60'' | Some v \<Rightarrow> if v = [] then ''60'' else v)"

definition default_limits :: "int \<Rightarrow> RateLimitInfo" where
  "default_limits now =
    \<lparr> minutelyRemaining = 0, hourlyRemaining = 0, dailyRemaining = 0,
      resetsAt_minute = now + 60000, resetsAt_hour = now + 3600000,
      resetsAt_day = now + 86400000 \<rparr>"

text \<open>\<open>super(message)\<close> with an absent \<open>error\<close> property gives the empty message; the
  authentication error has a default message instead.\<close>

definition message_or_empty :: "string option \<Rightarrow> string" where
  "message_or_empty m = (case m of None \<Rightarrow> [] | Some s \<Rightarrow> s)"

definition generic_http_error :: "http_response \<Rightarrow> sdk_error" where
  "generic_http_error r =
    NetworkError (''HTTP '' @ show_int (status r) @ '': '' @ statusText r) (status r) None"

text \<open>\<open>now\<close> is the reading of \<open>Date.now()\<close> when the function runs.\<close>

definition createErrorFromResponse :: "int \<Rightarrow> http_response \<Rightarrow> sdk_error" where
  "createErrorFromResponse now r =
    (case content r of
       NotJson e \<Rightarrow> generic_http_error r
     | Json JNull \<Rightarrow> generic_http_error r
     | Json (JObject err det lim oth) \<Rightarrow>
         if status r = 401 then
           AuthenticationError
             (case err of None \<Rightarrow> ''Invalid API key or Project ID'' | Some m \<Rightarrow> m)
         else if status r = 429 then
           RateLimitError (message_or_empty err)
             (case lim of Some l \<Rightarrow> l | None \<Rightarrow> default_limits now)
             (parseInt10 (retryAfter_or_default r))
         else if status r = 400 then
           ValidationError (message_or_empty err) det
         else
           NetworkError (message_or_empty err) (status r) det)"

text \<open>The kind the specification assigns to a status code.\<close>

definition kind_of_status :: "int \<Rightarrow> error_kind" where
  "kind_of_status s =
    (if s = 401 then Authentication else if s = 429 then RateLimit
     else if s = 400 then Validation else Network)"

section \<open>Configuration and construction (types.ts, promptella-sdk.ts, http-client.ts)\<close>

record SDKConfig =
  apiKey :: string
  projectId :: string
  baseUrl :: "string option"
  timeout :: "int option"
  debug :: "bool option"
  headers :: "(string \<times> string) list option"




text \<open>The HTTP client's configuration: the defaults, overridden by what the caller gave.\<close>

record ResolvedConfig =
  c_apiKey :: string
  c_projectId :: string
  c_baseUrl :: string
  c_timeout :: int
  c_debug :: bool
  c_headers :: "(string \<times> string) list"

definition defaultBaseUrl :: string where
  "defaultBaseUrl = ''https://promptella.ai''"

definition resolve_config :: "SDKConfig \<Rightarrow> ResolvedConfig" where
  "resolve_config config =
    \<lparr> c_apiKey = apiKey config,
      c_projectId = projectId config,
      c_baseUrl = (case baseUrl config of None \<Rightarrow> defaultBaseUrl | Some u \<Rightarrow> u),
      c_timeout = (case timeout config of None \<Rightarrow> 30000 | Some t \<Rightarrow> t),
      c_debug = (case debug config of None \<Rightarrow> False | Some d \<Rightarrow> d),
      c_headers = (case headers config of None \<Rightarrow> [] | Some h \<Rightarrow> h) \<rparr>"


section \<open>Events and the listener registry (http-client.ts)\<close>

datatype event_name = EvRequest | EvResponse | EvError | EvRateLimit | EvRetry

datatype http_method = GET | POST | PUT | DELETE

text \<open>The five events with their payloads: \<open>request\<close> (url, method, headers), \<open>response\<close>
  (status, data, duration), \<open>error\<close> (error, duration), \<open>rateLimit\<close> (limits,
  retryAfter), \<open>retry\<close> (attempt, maxAttempts, delay).\<close>

datatype sdk_event =
    RequestEvent string http_method "(string \<times> string) list"
  | ResponseEvent int json int
  | ErrorEvent sdk_error int
  | RateLimitEvent "RateLimitInfo option" "int option"
  | RetryEvent int int "int option"

fun name_of_event :: "sdk_event \<Rightarrow> event_name" where
  "name_of_event (RequestEvent u m h) = EvRequest"
| "name_of_event (ResponseEvent st d t) = EvResponse"
| "name_of_event (ErrorEvent e t) = EvError"
| "name_of_event (RateLimitEvent l ra) = EvRateLimit"
| "name_of_event (RetryEvent a m d) = EvRetry"

text \<open>The body of an outgoing request: the two shapes the SDK sends.\<close>

datatype request_body = PromptBody string | EmptyBody

text \<open>What a run does, in order: the ghost record from which attempts, emitted events and
  sleeps are read off.\<close>

datatype action =
    Fetched http_method string "(string \<times> string) list" "request_body option"
  | Emitted sdk_event
  | Slept "int option"

datatype console_line = ConsoleLog string | ConsoleError string sdk_error

text \<open>
  A handler is a function object. The registry holds references to such objects, and
  \<open>indexOf\<close> in \<open>off\<close> compares references, so a registered handler is a reference paired
  with what the function does when called: it receives the event's payload and acts on the
  world; it may call \<open>on\<close> and \<open>off\<close> of the client; it returns normally (\<open>None\<close>) or throws
  (\<open>Some e\<close>), and what it did before throwing stays done. Handlers that start another SDK
  call from inside an emission are outside this model.
\<close>

type_synonym handler_ref = nat

datatype 'w registry_call =
    CallOn event_name handler_ref
      "sdk_event \<Rightarrow> 'w \<Rightarrow> sdk_error option \<times> 'w \<times> 'w registry_call list"
  | CallOff event_name handler_ref

type_synonym 'w handler = "sdk_event \<Rightarrow> 'w \<Rightarrow> sdk_error option \<times> 'w \<times> 'w registry_call list"

type_synonym 'w listener = "handler_ref \<times> 'w handler"

text \<open>
  The state a run threads through: the virtual clock read by \<open>Date.now()\<close>, the state
  \<open>world\<close> the registered handlers act on, the debug console, the record of actions, the
  client's registry \<open>eventHandlers\<close> (a map from event names to arrays of handlers, changed
  in place by \<open>on\<close> and \<open>off\<close>), and the record \<open>invoked\<close> of the handlers called so far.
\<close>

record 'w runtime =
  clock :: int
  world :: 'w
  console :: "console_line list"
  trace :: "action list"
  eventHandlers :: "event_name \<Rightarrow> 'w listener list option"
  invoked :: "handler_ref list"

text \<open>The part of the client that never changes after construction. The registry, which
  does change, is the component \<open>eventHandlers\<close> of the state and is empty for a new client.
  The type parameter is the type of the world the client's handlers act on.\<close>

record 'w HttpClient =
  config :: ResolvedConfig


record 'w PromptellaSDK =
  httpClient :: "'w HttpClient"
  isTest :: bool


text \<open>\<open>on\<close>: create the array for the name when there is none, then push the handler.\<close>

definition on :: "event_name \<Rightarrow> 'w listener \<Rightarrow> 'w runtime \<Rightarrow> 'w runtime" where
  "on event handler s =
    (let existing = (case eventHandlers s event of None \<Rightarrow> [] | Some hs \<Rightarrow> hs)
     in s\<lparr> eventHandlers := (eventHandlers s)(event \<mapsto> existing @ [handler]) \<rparr>)"

text \<open>\<open>handlers.indexOf(handler)\<close>: the first index holding that reference; \<open>None\<close> stands
  for -1.\<close>

fun index_of :: "handler_ref \<Rightarrow> 'w listener list \<Rightarrow> nat option" where
  "index_of r [] = None"
| "index_of r (h # hs) = (if fst h = r then Some 0 else map_option Suc (index_of r hs))"

text \<open>\<open>off\<close>: when the name has an array and the handler is in it, \<open>splice(index, 1)\<close>.\<close>

definition off :: "event_name \<Rightarrow> handler_ref \<Rightarrow> 'w runtime \<Rightarrow> 'w runtime" where
  "off event r s =
    (case eventHandlers s event of
       None \<Rightarrow> s
     | Some handlers \<Rightarrow>
        (case index_of r handlers of
           None \<Rightarrow> s
         | Some index \<Rightarrow>
             s\<lparr> eventHandlers :=
                  (eventHandlers s)(event \<mapsto> take index handlers @ drop (Suc index) handlers) \<rparr>))"

text \<open>A call of \<open>on\<close> or \<open>off\<close> made by a handler.\<close>

fun perform :: "'w registry_call \<Rightarrow> 'w runtime \<Rightarrow> 'w runtime" where
  "perform (CallOn event r h) s = on event (r, h) s"
| "perform (CallOff event r) s = off event r s"

text \<open>
  \<open>Array.prototype.forEach\<close> on an array that the callback can change. The number of
  indices to visit is fixed when \<open>forEach\<close> starts; \<open>n\<close> counts the indices still to visit
  and \<open>k\<close> is the next one. Each index is looked up in the array as it is at that moment
  (\<open>array s\<close>), and an index that is no longer present is skipped. An exception leaving the
  callback ends the iteration and leaves \<open>forEach\<close>.
\<close>

fun forEach :: "('s \<Rightarrow> 'a list) \<Rightarrow> ('a \<Rightarrow> 's \<Rightarrow> sdk_error + 's) \<Rightarrow> nat \<Rightarrow> nat \<Rightarrow> 's \<Rightarrow> sdk_error + 's" where
  "forEach array f 0 k s = Inr s"
| "forEach array f (Suc n) k s =
    (if k < length (array s) then
       (case f (array s ! k) s of
          Inl e \<Rightarrow> Inl e
        | Inr s' \<Rightarrow> forEach array f n (Suc k) s')
     else forEach array f n (Suc k) s)"

text \<open>The callback \<open>emit\<close> hands to \<open>forEach\<close>: the handler call inside \<open>try\<close>, and the
  \<open>catch\<close> that reports to the console in debug mode.\<close>

definition guarded_call :: "bool \<Rightarrow> sdk_event \<Rightarrow> 'w listener \<Rightarrow> 'w runtime \<Rightarrow> sdk_error + 'w runtime" where
  "guarded_call dbg data handler s =
    (case snd handler data (world s) of
       (thrown, w', calls) \<Rightarrow>
         (let s1 = foldl (\<lambda>st c. perform c st)
                     (s\<lparr> world := w', invoked := invoked s @ [fst handler] \<rparr>) calls
          in case thrown of
               None \<Rightarrow> Inr s1
             | Some e \<Rightarrow>
                 Inr (if dbg
                      then s1\<lparr> console := console s1 @ [ConsoleError ''Error in event handler:'' e] \<rparr>
                      else s1)))"

text \<open>The array registered for a name, as it is in a state; no array reads as the empty
  one.\<close>

definition handlers_of :: "event_name \<Rightarrow> 'w runtime \<Rightarrow> 'w listener list" where
  "handlers_of event s = (case eventHandlers s event of None \<Rightarrow> [] | Some hs \<Rightarrow> hs)"

text \<open>\<open>emit\<close>. The emission itself is entered in the record of actions. \<open>forEach\<close> runs on
  the array of the registry itself, not on a copy.\<close>

definition emit :: "'w HttpClient \<Rightarrow> sdk_event \<Rightarrow> 'w runtime \<Rightarrow> sdk_error + 'w runtime" where
  "emit http data s =
    (let s1 = s\<lparr> trace := trace s @ [Emitted data] \<rparr>
     in case eventHandlers s1 (name_of_event data) of
          None \<Rightarrow> Inr s1
        | Some handlers \<Rightarrow>
            forEach (handlers_of (name_of_event data)) (guarded_call (c_debug (config http)) data)
              (length handlers) 0 s1)"

section \<open>The request executor (http-client.ts)\<close>

text \<open>
  No exception leaves \<open>emit\<close> (lemma \<open>emit_returns\<close> below), so a call of \<open>emit\<close> inside
  \<open>request\<close> is the state it returns.
\<close>

definition emitted :: "'w HttpClient \<Rightarrow> sdk_event \<Rightarrow> 'w runtime \<Rightarrow> 'w runtime" where
  "emitted http data s = (case emit http data s of Inr s' \<Rightarrow> s' | Inl e \<Rightarrow> s)"

text \<open>
  What one call of \<open>fetch\<close> does, given from outside: it resolves with a response or
  rejects with an error after some milliseconds, or it never settles. The transport of a
  run gives the behaviour of each call by its zero-based position.
\<close>

datatype fetch_behaviour =
    Resolves http_response int
  | Rejects sdk_error int
  | Pending

datatype settled = Response http_response | Thrown sdk_error

text \<open>\<open>Promise.race([fetchPromise, timeoutPromise])\<close>: the fetch wins when it settles
  before the timer of \<open>timeout\<close> milliseconds fires; otherwise the timer rejects with a
  \<open>TimeoutError\<close>. The second component is the time that passed.\<close>

definition race :: "int \<Rightarrow> fetch_behaviour \<Rightarrow> settled \<times> int" where
  "race tmo f =
    (case f of
       Resolves r el \<Rightarrow>
         if el < tmo then (Response r, el) else (Thrown (TimeoutError tmo), max 0 tmo)
     | Rejects e el \<Rightarrow>
         if el < tmo then (Thrown e, el) else (Thrown (TimeoutError tmo), max 0 tmo)
     | Pending \<Rightarrow> (Thrown (TimeoutError tmo), max 0 tmo))"

record RequestOptions =
  retries :: "int option"
  retryDelay :: "int option"
  timeout_override :: "int option"

text \<open>The constants of one logical call, after the defaults are applied.\<close>

record request_ctx =
  rq_method :: http_method
  rq_url :: string
  rq_headers :: "(string \<times> string) list"
  rq_body :: "request_body option"
  rq_retries :: int
  rq_retryDelay :: int
  rq_timeout :: int

text \<open>How one pass through the loop body ends: \<open>continue\<close>, \<open>return data\<close> or an
  exception.\<close>

datatype completion = Continue | Return json | Throw sdk_error

definition sleep :: "int option \<Rightarrow> 'w runtime \<Rightarrow> 'w runtime" where
  "sleep ms s =
    s\<lparr> clock := clock s + (case ms of None \<Rightarrow> 0 | Some d \<Rightarrow> max 0 d),
       trace := trace s @ [Slept ms] \<rparr>"

definition debug_log :: "'w HttpClient \<Rightarrow> string \<Rightarrow> 'w runtime \<Rightarrow> 'w runtime" where
  "debug_log http line s =
    (if c_debug (config http) then s\<lparr> console := console s @ [ConsoleLog line] \<rparr> else s)"

text \<open>\<open>retryDelay * Math.pow(2, attempt)\<close>.\<close>

definition backoff :: "request_ctx \<Rightarrow> nat \<Rightarrow> int" where
  "backoff ctx attempt = rq_retryDelay ctx * 2 ^ attempt"

text \<open>The three retry sites share their shape: emit \<open>retry\<close>, log in debug mode, sleep.
  \<open>line\<close> is the text logged.\<close>

definition retry_after :: "'w HttpClient \<Rightarrow> request_ctx \<Rightarrow> nat \<Rightarrow> int option \<Rightarrow> string \<Rightarrow> 'w runtime \<Rightarrow> 'w runtime" where
  "retry_after http ctx attempt delay line s =
    sleep delay
      (debug_log http line
        (emitted http (RetryEvent (int attempt + 1) (rq_retries ctx + 1) delay) s))"

text \<open>The end of the \<open>if (!response.ok)\<close> block: retry a server error while attempts
  remain, otherwise \<open>throw error\<close>.\<close>

definition server_error_or_throw :: "'w HttpClient \<Rightarrow> request_ctx \<Rightarrow> nat \<Rightarrow> http_response \<Rightarrow> sdk_error \<Rightarrow> 'w runtime \<Rightarrow> completion \<times> 'w runtime" where
  "server_error_or_throw http ctx attempt response error s =
    (if status response \<ge> 500 \<and> int attempt < rq_retries ctx then
       (let delay = Some (backoff ctx attempt)
        in (Continue,
            retry_after http ctx attempt delay
              (''[Promptella SDK] Server error, retrying in '' @ show_num delay @ ''ms'') s))
     else (Throw error, s))"

text \<open>The \<open>try\<close> block of the loop body.\<close>

definition try_block :: "'w HttpClient \<Rightarrow> request_ctx \<Rightarrow> (nat \<Rightarrow> fetch_behaviour) \<Rightarrow> nat \<Rightarrow> 'w runtime \<Rightarrow> completion \<times> 'w runtime" where
  "try_block http ctx transport attempt s =
    (let requestStartTime = clock s;
         s1 = s\<lparr> trace := trace s @ [Fetched (rq_method ctx) (rq_url ctx) (rq_headers ctx) (rq_body ctx)] \<rparr>;
         outcome = race (rq_timeout ctx) (transport attempt);
         s2 = s1\<lparr> clock := clock s1 + snd outcome \<rparr>
     in case fst outcome of
          Thrown e \<Rightarrow> (Throw e, s2)
        | Response response \<Rightarrow>
           (let duration = clock s2 - requestStartTime
            in if \<not> ok response then
                 (let error = createErrorFromResponse (clock s2) response;
                      s3 = emitted http (ErrorEvent error duration) s2
                  in if status response = 429 \<and> int attempt < rq_retries ctx then
                       (let retryAfter = js_times (parseInt10 (retryAfter_or_default response)) 1000;
                            s4 = emitted http (RateLimitEvent (limits_of error) (js_div1000 retryAfter)) s3
                        in if int attempt < rq_retries ctx then
                             (let delay = js_max retryAfter (backoff ctx attempt)
                              in (Continue,
                                  retry_after http ctx attempt delay
                                    (''[Promptella SDK] Rate limited, retrying in '' @ show_num delay @ ''ms'') s4))
                           else server_error_or_throw http ctx attempt response error s4)
                     else server_error_or_throw http ctx attempt response error s3)
               else
                 (case content response of
                    NotJson e \<Rightarrow> (Throw e, s2)
                  | Json data \<Rightarrow>
                      (Return data,
                       debug_log http
                         (''[Promptella SDK] Response received in '' @ show_int duration @ ''ms'')
                         (emitted http (ResponseEvent (status response) data duration) s2)))))"

text \<open>The \<open>catch\<close> block of the loop body; it receives every exception of the \<open>try\<close>
  block, also the \<open>throw error\<close> at its end.\<close>

definition catch_block :: "'w HttpClient \<Rightarrow> request_ctx \<Rightarrow> nat \<Rightarrow> int \<Rightarrow> sdk_error \<Rightarrow> 'w runtime \<Rightarrow> completion \<times> 'w runtime" where
  "catch_block http ctx attempt requestStartTime error s =
    (let duration = clock s - requestStartTime
     in if code_of error = Some ''AUTHENTICATION_ERROR'' \<or>
           code_of error = Some ''VALIDATION_ERROR'' \<or>
           name_of error = ''AbortError'' then
          (Throw error, emitted http (ErrorEvent error duration) s)
        else if int attempt < rq_retries ctx \<and>
                (name_of error = ''NetworkError'' \<or> name_of error = ''TypeError'' \<or>
                 str_includes (message_of error) ''fetch'') then
          (let delay = Some (backoff ctx attempt)
           in (Continue,
               retry_after http ctx attempt delay
                 (''[Promptella SDK] Network error, retrying in '' @ show_num delay @ ''ms: '' @ message_of error) s))
        else (Throw error, emitted http (ErrorEvent error duration) s))"

text \<open>One pass through the loop body.\<close>

definition attempt_once :: "'w HttpClient \<Rightarrow> request_ctx \<Rightarrow> (nat \<Rightarrow> fetch_behaviour) \<Rightarrow> nat \<Rightarrow> 'w runtime \<Rightarrow> completion \<times> 'w runtime" where
  "attempt_once http ctx transport attempt s =
    (case try_block http ctx transport attempt s of
       (Throw error, s') \<Rightarrow> catch_block http ctx attempt (clock s) error s'
     | (Continue, s') \<Rightarrow> (Continue, s')
     | (Return data, s') \<Rightarrow> (Return data, s'))"

text \<open>The loop \<open>for (let attempt = 0; attempt <= retries; attempt++)\<close> and the \<open>throw\<close>
  after it.\<close>

function attempt_loop :: "'w HttpClient \<Rightarrow> request_ctx \<Rightarrow> (nat \<Rightarrow> fetch_behaviour) \<Rightarrow> nat \<Rightarrow> 'w runtime \<Rightarrow> (sdk_error + json) \<times> 'w runtime" where
  "attempt_loop http ctx transport attempt s =
    (if int attempt \<le> rq_retries ctx then
       (case attempt_once http ctx transport attempt s of
          (Continue, s') \<Rightarrow> attempt_loop http ctx transport (Suc attempt) s'
        | (Return data, s') \<Rightarrow> (Inr data, s')
        | (Throw e, s') \<Rightarrow> (Inl e, s'))
     else (Inl (JsError ''Error'' ''Maximum retries exceeded''), s))"
  by pat_completeness auto
termination
  by (relation "measure (\<lambda>(http, ctx, transport, attempt, s). nat (rq_retries ctx + 1 - int attempt))") auto

declare attempt_loop.simps [simp del]

text \<open>Object spread \<open>{...fixed, ...extra}\<close>: a key of \<open>extra\<close> replaces the value of the
  same key in place, a new key is appended.\<close>

definition spread :: "(string \<times> string) list \<Rightarrow> (string \<times> string) list \<Rightarrow> (string \<times> string) list" where
  "spread fixed extra = foldl (\<lambda>al kv. AList.update (fst kv) (snd kv) al) fixed extra"

definition request_headers :: "ResolvedConfig \<Rightarrow> (string \<times> string) list" where
  "request_headers c =
    spread
      [(''Content-Type'', ''application/json''),
       (''Authorization'', ''Bearer '' @ c_apiKey c),
       (''X-Project-ID'', c_projectId c),
       (''User-Agent'', ''@nation3labs/promptella-sdk/1.0.0'')]
      (c_headers c)"

definition method_text :: "http_method \<Rightarrow> string" where
  "method_text m = (case m of GET \<Rightarrow> ''GET'' | POST \<Rightarrow> ''POST'' | PUT \<Rightarrow> ''PUT'' | DELETE \<Rightarrow> ''DELETE'')"

definition request_context :: "'w HttpClient \<Rightarrow> http_method \<Rightarrow> string \<Rightarrow> request_body option \<Rightarrow> RequestOptions \<Rightarrow> request_ctx" where
  "request_context http method path body options =
    \<lparr> rq_method = method,
      rq_url = c_baseUrl (config http) @ path,
      rq_headers = request_headers (config http),
      rq_body = body,
      rq_retries = (case retries options of None \<Rightarrow> 3 | Some n \<Rightarrow> n),
      rq_retryDelay = (case retryDelay options of None \<Rightarrow> 1000 | Some d \<Rightarrow> d),
      rq_timeout = (case timeout_override options of None \<Rightarrow> c_timeout (config http) | Some t \<Rightarrow> t) \<rparr>"

text \<open>\<open>HttpClient.request\<close>: the result (\<open>Inl\<close> the error raised, \<open>Inr\<close> the decoded
  payload) and the state the run leaves.\<close>

definition request :: "'w HttpClient \<Rightarrow> http_method \<Rightarrow> string \<Rightarrow> request_body option \<Rightarrow> RequestOptions \<Rightarrow> (nat \<Rightarrow> fetch_behaviour) \<Rightarrow> 'w runtime \<Rightarrow> (sdk_error + json) \<times> 'w runtime" where
  "request http method path body options transport s =
    (let ctx = request_context http method path body options;
         s1 = emitted http (RequestEvent (rq_url ctx) method (rq_headers ctx)) s;
         s2 = debug_log http (''[Promptella SDK] '' @ method_text method @ '' '' @ rq_url ctx) s1
     in attempt_loop http ctx transport 0 s2)"

text \<open>Readings of the record of actions.\<close>

definition attempts :: "action list \<Rightarrow> nat" where
  "attempts tr = length (filter (\<lambda>a. case a of Fetched m u h b \<Rightarrow> True | _ \<Rightarrow> False) tr)"

definition sleeps :: "action list \<Rightarrow> int option list" where
  "sleeps tr = concat (map (\<lambda>a. case a of Slept d \<Rightarrow> [d] | _ \<Rightarrow> []) tr)"

definition events :: "action list \<Rightarrow> sdk_event list" where
  "events tr = concat (map (\<lambda>a. case a of Emitted e \<Rightarrow> [e] | _ \<Rightarrow> []) tr)"

section \<open>The enhancement client (promptella-sdk.ts)\<close>

record EnhancePromptOptions =
  maxSuggestions :: "int option"
  categories :: "string list option"
  includeProcessingTime :: "bool option"

definition validCategories :: "string list" where
  "validCategories =
    [''clarity'', ''specificity'', ''context'', ''structure'', ''examples'', ''constraints'']"

text \<open>\<open>Array.prototype.join\<close>.\<close>

fun join :: "string \<Rightarrow> string list \<Rightarrow> string" where
  "join sep [] = []"
| "join sep [x] = x"
| "join sep (x # y # ys) = x @ sep @ join sep (y # ys)"

text \<open>
  \<open>enhancePrompt\<close>. The checks run in the order of the source; a failed check raises a
  validation error and leaves the state untouched. A condition \<open>options.maxSuggestions &&
  ...\<close> is skipped for an absent value and for the number zero.
\<close>

definition enhancePrompt :: "'w PromptellaSDK \<Rightarrow> string \<Rightarrow> EnhancePromptOptions \<Rightarrow> (nat \<Rightarrow> fetch_behaviour) \<Rightarrow> 'w runtime \<Rightarrow> (sdk_error + json) \<times> 'w runtime" where
  "enhancePrompt sdk prompt options transport s =
    (if prompt = [] then
       (Inl (ValidationError ''Prompt must be a non-empty string'' None), s)
     else if length prompt > 5000 then
       (Inl (ValidationError ''Prompt cannot exceed 5000 characters'' None), s)
     else if length (trim prompt) = 0 then
       (Inl (ValidationError ''Prompt cannot be empty or only whitespace'' None), s)
     else if (case maxSuggestions options of None \<Rightarrow> False
              | Some n \<Rightarrow> n \<noteq> 0 \<and> (n < 1 \<or> n > 10)) then
       (Inl (ValidationError ''maxSuggestions must be between 1 and 10'' None), s)
     else
       (let invalidCategories =
              (case categories options of None \<Rightarrow> []
               | Some cats \<Rightarrow> filter (\<lambda>cat. cat \<notin> set validCategories) cats)
        in if invalidCategories \<noteq> [] then
             (Inl (ValidationError
                    (''Invalid categories: '' @ join '', '' invalidCategories @
                     ''. Valid categories: '' @ join '', '' validCategories) None), s)
           else
             request (httpClient sdk) POST ''/api/v1/enhance-prompt''
               (Some (PromptBody (trim prompt)))
               \<lparr> retries = Some 3, retryDelay = Some 1000, timeout_override = None \<rparr>
               transport s))"

section \<open>Notions used in the statements\<close>


text \<open>The events of each attempt: the names of the events emitted after each \<open>fetch\<close> and
  before the next one. The first component holds what was emitted before the first
  \<open>fetch\<close>.\<close>

fun split_attempts :: "action list \<Rightarrow> event_name list \<times> event_name list list" where
  "split_attempts [] = ([], [])"
| "split_attempts (Fetched m u h b # as) = ([], fst (split_attempts as) # snd (split_attempts as))"
| "split_attempts (Emitted e # as) = (name_of_event e # fst (split_attempts as), snd (split_attempts as))"
| "split_attempts (Slept d # as) = split_attempts as"

definition events_per_attempt :: "action list \<Rightarrow> event_name list list" where
  "events_per_attempt tr = snd (split_attempts tr)"

section \<open>Concrete inputs for the examples\<close>

definition demo_config :: SDKConfig where
  "demo_config =
    \<lparr> apiKey = ''sk_test_'' @ replicate 32 (CHR ''a''),
      projectId = ''proj_'' @ replicate 24 (CHR ''b''),
      baseUrl = None, timeout = None, debug = None, headers = None \<rparr>"

definition demo_client :: "unit HttpClient" where
  "demo_client = \<lparr> config = resolve_config demo_config \<rparr>"

definition demo_sdk :: "unit PromptellaSDK" where
  "demo_sdk = \<lparr> httpClient = demo_client, isTest = True \<rparr>"

definition fresh :: "unit runtime" where
  "fresh = \<lparr> clock = 0, world = (), console = [], trace = [], eventHandlers = Map.empty, invoked = [] \<rparr>"

definition plain_response :: "int \<Rightarrow> string \<Rightarrow> body \<Rightarrow> http_response" where
  "plain_response st txt b =
    \<lparr> status = st, statusText = txt, retryAfterHeader = None, content = b \<rparr>"

definition three_retries :: RequestOptions where
  "three_retries = \<lparr> retries = Some 3, retryDelay = None, timeout_override = None \<rparr>"

text \<open>A server that answers every call with status 500 and a body that is not an object.\<close>

definition server_down :: "nat \<Rightarrow> fetch_behaviour" where
  "server_down i = Resolves (plain_response 500 ''Internal Server Error'' (Json JNull)) 20"

text \<open>A gateway that answers every call with status 401 and an HTML page, and a server
  that answers 401 with a structured error.\<close>

definition html_unauthorized :: "nat \<Rightarrow> fetch_behaviour" where
  "html_unauthorized i =
     Resolves (plain_response 401 ''Unauthorized'' (NotJson (JsError ''SyntaxError'' ''Unexpected token < in JSON at position 0''))) 20"

definition json_unauthorized :: "nat \<Rightarrow> fetch_behaviour" where
  "json_unauthorized i =
     Resolves (plain_response 401 ''Unauthorized'' (Json (JObject (Some ''Invalid API key'') None None []))) 20"

definition one_retry :: RequestOptions where
  "one_retry = \<lparr> retries = Some 1, retryDelay = None, timeout_override = None \<rparr>"

text \<open>A call of \<open>fetch\<close> that never settles.\<close>

definition hangs :: "nat \<Rightarrow> fetch_behaviour" where
  "hangs i = Pending"

text \<open>A rate-limited answer whose \<open>Retry-After\<close> is an HTTP date, one whose \<open>Retry-After\<close>
  is two seconds, then a success.\<close>

definition dated_429 :: http_response where
  "dated_429 = \<lparr> status = 429, statusText = ''Too Many Requests'',
                 retryAfterHeader = Some ''Wed, 21 Oct 2026 07:28:00 GMT'',
                 content = Json (JObject (Some ''Rate limit exceeded'') None None []) \<rparr>"

definition too_many :: http_response where
  "too_many = \<lparr> status = 429, statusText = ''Too Many Requests'', retryAfterHeader = Some ''2'',
                 content = Json (JObject (Some ''Rate limit exceeded'') None None []) \<rparr>"

definition throttled_twice :: "nat \<Rightarrow> fetch_behaviour" where
  "throttled_twice i =
     (if i = 0 then Resolves dated_429 20
      else if i = 1 then Resolves too_many 20
      else Resolves (plain_response 200 ''OK'' (Json (JObject None None None ''suggestions''))) 20)"






text \<open>A prompt of one letter followed by 5000 spaces, and option records.\<close>

definition padded_prompt :: string where
  "padded_prompt = CHR ''a'' # replicate 5000 (CHR '' '')"

definition default_options :: EnhancePromptOptions where
  "default_options = \<lparr> maxSuggestions = None, categories = None, includeProcessingTime = None \<rparr>"

definition zero_suggestions :: EnhancePromptOptions where
  "zero_suggestions = \<lparr> maxSuggestions = Some 0, categories = Some [''clarity''], includeProcessingTime = None \<rparr>"

definition eleven_suggestions :: EnhancePromptOptions where
  "eleven_suggestions = \<lparr> maxSuggestions = Some 11, categories = None, includeProcessingTime = None \<rparr>"

text \<open>Two handlers that write their names to a log; the first one unregisters itself when
  it is called, as a handler meant to run once does.\<close>

definition once_handler :: "string list handler" where
  "once_handler d w = (None, w @ [''first''], [CallOff EvRetry 1])"

definition plain_handler :: "string list handler" where
  "plain_handler d w = (None, w @ [''second''], [])"

definition bare_client :: "string list HttpClient" where
  "bare_client = \<lparr> config = resolve_config demo_config \<rparr>"

definition empty_log :: "string list runtime" where
  "empty_log = \<lparr> clock = 0, world = [], console = [], trace = [], eventHandlers = Map.empty, invoked = [] \<rparr>"

section \<open>Auxiliary facts\<close>

subsection \<open>Emission never throws\<close>


lemma on_frame [simp]:
  "trace (on ev h s) = trace s" "clock (on ev h s) = clock s"
  by (simp_all add: on_def Let_def)

lemma off_frame [simp]:
  "trace (off ev r s) = trace s" "clock (off ev r s) = clock s"
  by (simp_all add: off_def split: option.splits)

lemma perform_frame [simp]:
  "trace (perform c s) = trace s" "clock (perform c s) = clock s"
  by (cases c; simp)+

lemma performs_frame [simp]:
  "trace (foldl (\<lambda>st c. perform c st) s cs) = trace s"
  "clock (foldl (\<lambda>st c. perform c st) s cs) = clock s"
  by (induction cs arbitrary: s) simp_all

lemma guarded_call_returns:
  "\<exists>s'. guarded_call dbg d h s = Inr s' \<and> trace s' = trace s \<and> clock s' = clock s"
  by (cases "snd h d (world s)") (auto simp: guarded_call_def Let_def split: option.splits)

lemma forEach_guarded:
  "\<exists>s'. forEach array (guarded_call dbg d) n k s = Inr s' \<and> trace s' = trace s \<and> clock s' = clock s"
proof (induction n arbitrary: k s)
  case 0
  then show ?case by simp
next
  case (Suc n)
  show ?case
  proof (cases "k < length (array s)")
    case True
    obtain s1 where s1: "guarded_call dbg d (array s ! k) s = Inr s1"
        "trace s1 = trace s" "clock s1 = clock s"
      using guarded_call_returns [of dbg d "array s ! k" s] by blast
    from Suc.IH [of "Suc k" s1] True s1 show ?thesis by auto
  next
    case False
    with Suc.IH [of "Suc k" s] show ?thesis by simp
  qed
qed

lemma emit_returns:
  "\<exists>s'. emit http d s = Inr s' \<and> trace s' = trace s @ [Emitted d] \<and> clock s' = clock s"
proof (cases "eventHandlers s (name_of_event d)")
  case None
  then show ?thesis by (simp add: emit_def)
next
  case (Some hs)
  from forEach_guarded [of "handlers_of (name_of_event d)" "c_debug (config http)" d "length hs" 0
      "s\<lparr>trace := trace s @ [Emitted d]\<rparr>"]
  show ?thesis using Some by (auto simp: emit_def)
qed

lemma trace_emitted [simp]: "trace (emitted http d s) = trace s @ [Emitted d]"
  using emit_returns [of http d s] by (auto simp: emitted_def)

lemma clock_emitted [simp]: "clock (emitted http d s) = clock s"
  using emit_returns [of http d s] by (auto simp: emitted_def)

lemma trace_sleep [simp]: "trace (sleep ms s) = trace s @ [Slept ms]"
  by (simp add: sleep_def)

lemma clock_sleep [simp]:
  "clock (sleep ms s) = clock s + (case ms of None \<Rightarrow> 0 | Some d \<Rightarrow> max 0 d)"
  by (simp add: sleep_def)

lemma trace_debug_log [simp]: "trace (debug_log http l s) = trace s"
  by (simp add: debug_log_def)

lemma clock_debug_log [simp]: "clock (debug_log http l s) = clock s"
  by (simp add: debug_log_def)

lemma trace_retry_after [simp]:
  "trace (retry_after http ctx attempt delay l s) =
     trace s @ [Emitted (RetryEvent (int attempt + 1) (rq_retries ctx + 1) delay), Slept delay]"
  by (simp add: retry_after_def)

lemma clock_retry_after [simp]:
  "clock (retry_after http ctx attempt delay l s) =
     clock s + (case delay of None \<Rightarrow> 0 | Some d \<Rightarrow> max 0 d)"
  by (simp add: retry_after_def)

subsection \<open>The timeout message\<close>









subsection \<open>One pass through the loop body, case by case\<close>


lemma race_in_time:
  "el < tmo \<Longrightarrow> race tmo (Resolves r el) = (Response r, el)"
  by (simp add: race_def)


lemma once_rate_limited_retry:
  assumes "transport attempt = Resolves r el" "el < rq_timeout ctx"
    and "status r = 429" "int attempt < rq_retries ctx"
  shows "\<exists>s'. attempt_once http ctx transport attempt s = (Continue, s') \<and>
           trace s' = trace s @
             [Fetched (rq_method ctx) (rq_url ctx) (rq_headers ctx) (rq_body ctx),
              Emitted (ErrorEvent (createErrorFromResponse (clock s + el) r) el),
              Emitted (RateLimitEvent (limits_of (createErrorFromResponse (clock s + el) r))
                         (js_div1000 (js_times (parseInt10 (retryAfter_or_default r)) 1000))),
              Emitted (RetryEvent (int attempt + 1) (rq_retries ctx + 1)
                         (js_max (js_times (parseInt10 (retryAfter_or_default r)) 1000) (backoff ctx attempt))),
              Slept (js_max (js_times (parseInt10 (retryAfter_or_default r)) 1000) (backoff ctx attempt))] \<and>
           clock s' = clock s + el +
             (case js_max (js_times (parseInt10 (retryAfter_or_default r)) 1000) (backoff ctx attempt) of
                None \<Rightarrow> 0 | Some d \<Rightarrow> max 0 d)"
  using assms
  by (simp add: attempt_once_def try_block_def race_in_time ok_def Let_def)

lemma once_http_error_last:
  assumes "transport attempt = Resolves r el" "el < rq_timeout ctx"
    and "\<not> ok r" "\<not> int attempt < rq_retries ctx"
  shows "\<exists>s'. attempt_once http ctx transport attempt s =
             (Throw (createErrorFromResponse (clock s + el) r), s') \<and>
           trace s' = trace s @
             [Fetched (rq_method ctx) (rq_url ctx) (rq_headers ctx) (rq_body ctx),
              Emitted (ErrorEvent (createErrorFromResponse (clock s + el) r) el),
              Emitted (ErrorEvent (createErrorFromResponse (clock s + el) r) el)] \<and>
           clock s' = clock s + el"
  using assms
  by (simp add: attempt_once_def try_block_def server_error_or_throw_def catch_block_def race_in_time Let_def)

lemma once_not_retried_kind:
  assumes "transport attempt = Resolves r el" "el < rq_timeout ctx"
    and "\<not> ok r" "status r \<noteq> 429" "status r < 500"
    and "code_of (createErrorFromResponse (clock s + el) r) = Some ''AUTHENTICATION_ERROR'' \<or>
         code_of (createErrorFromResponse (clock s + el) r) = Some ''VALIDATION_ERROR''"
  shows "\<exists>s'. attempt_once http ctx transport attempt s =
             (Throw (createErrorFromResponse (clock s + el) r), s') \<and>
           trace s' = trace s @
             [Fetched (rq_method ctx) (rq_url ctx) (rq_headers ctx) (rq_body ctx),
              Emitted (ErrorEvent (createErrorFromResponse (clock s + el) r) el),
              Emitted (ErrorEvent (createErrorFromResponse (clock s + el) r) el)] \<and>
           clock s' = clock s + el"
  using assms
  by (auto simp add: attempt_once_def try_block_def server_error_or_throw_def catch_block_def race_in_time Let_def)

lemma once_success:
  assumes "transport attempt = Resolves r el" "el < rq_timeout ctx"
    and "ok r" "content r = Json data"
  shows "\<exists>s'. attempt_once http ctx transport attempt s = (Return data, s') \<and>
           trace s' = trace s @
             [Fetched (rq_method ctx) (rq_url ctx) (rq_headers ctx) (rq_body ctx),
              Emitted (ResponseEvent (status r) data el)] \<and>
           clock s' = clock s + el"
  using assms
  by (simp add: attempt_once_def try_block_def race_in_time Let_def)

lemma loop_continue:
  "int attempt \<le> rq_retries ctx \<Longrightarrow> attempt_once http ctx transport attempt s = (Continue, s')
   \<Longrightarrow> attempt_loop http ctx transport attempt s = attempt_loop http ctx transport (Suc attempt) s'"
  by (subst attempt_loop.simps) simp

lemma loop_throw:
  "int attempt \<le> rq_retries ctx \<Longrightarrow> attempt_once http ctx transport attempt s = (Throw e, s')
   \<Longrightarrow> attempt_loop http ctx transport attempt s = (Inl e, s')"
  by (subst attempt_loop.simps) simp

lemma loop_return:
  "int attempt \<le> rq_retries ctx \<Longrightarrow> attempt_once http ctx transport attempt s = (Return d, s')
   \<Longrightarrow> attempt_loop http ctx transport attempt s = (Inr d, s')"
  by (subst attempt_loop.simps) simp

subsection \<open>Readings of the record\<close>


lemma attempts_append [simp]: "attempts (xs @ ys) = attempts xs + attempts ys"
  by (simp add: attempts_def)

lemma sleeps_append [simp]: "sleeps (xs @ ys) = sleeps xs @ sleeps ys"
  by (simp add: sleeps_def)

lemma events_append [simp]: "events (xs @ ys) = events xs @ events ys"
  by (simp add: events_def)

lemma attempts_Cons [simp]:
  "attempts (Fetched m u h b # xs) = Suc (attempts xs)"
  "attempts (Emitted e # xs) = attempts xs"
  "attempts (Slept d # xs) = attempts xs"
  "attempts [] = 0"
  by (simp_all add: attempts_def)

lemma sleeps_Cons [simp]:
  "sleeps (Fetched m u h b # xs) = sleeps xs"
  "sleeps (Emitted e # xs) = sleeps xs"
  "sleeps (Slept d # xs) = d # sleeps xs"
  "sleeps [] = []"
  by (simp_all add: sleeps_def)


subsection \<open>Further cases of the loop body, numbers, and the examples unfolded\<close>

lemma once_client_error_retry:
  assumes "transport attempt = Resolves r el" "el < rq_timeout ctx"
    and "\<not> ok r" "status r \<noteq> 429" "status r < 500" "int attempt < rq_retries ctx"
    and "name_of (createErrorFromResponse (clock s + el) r) = ''NetworkError''"
  shows "\<exists>s'. attempt_once http ctx transport attempt s = (Continue, s') \<and>
           trace s' = trace s @
             [Fetched (rq_method ctx) (rq_url ctx) (rq_headers ctx) (rq_body ctx),
              Emitted (ErrorEvent (createErrorFromResponse (clock s + el) r) el),
              Emitted (RetryEvent (int attempt + 1) (rq_retries ctx + 1) (Some (backoff ctx attempt))),
              Slept (Some (backoff ctx attempt))] \<and>
           clock s' = clock s + el + max 0 (backoff ctx attempt)"
  using assms
  by (cases "createErrorFromResponse (clock s + el) r")
     (simp_all add: attempt_once_def try_block_def server_error_or_throw_def catch_block_def race_in_time Let_def)

lemma js_div1000_times [simp]: "js_div1000 (js_times x 1000) = x"
  by (cases x) (simp_all add: js_div1000_def js_times_def)

lemma parseInt10_60: "parseInt10 ''60'' = Some 60"
  by (simp add: parseInt10_def is_space_def is_digit_def digits_value_def digit_val_def)

lemma parseInt10_2: "parseInt10 ''2'' = Some 2"
  by (simp add: parseInt10_def is_space_def is_digit_def digits_value_def digit_val_def)

lemma parseInt10_empty: "parseInt10 [] = None"
  by (simp add: parseInt10_def)

lemmas demo_simps = three_retries_def server_down_def plain_response_def fresh_def request_context_def
        demo_client_def resolve_config_def demo_config_def createErrorFromResponse_def
        generic_http_error_def show_int_def show_nat.simps digit_char_def one_retry_def
        html_unauthorized_def json_unauthorized_def

subsection \<open>Configuration checks\<close>






subsection \<open>Every run of the loop body calls \<open>fetch\<close>\<close>

lemma length_trim_le: "length (trim p) \<le> length p"
proof -
  have "length (trim p) \<le> length (dropWhile is_space p)"
    unfolding trim_def using length_dropWhile_le [of is_space "rev (dropWhile is_space p)"] by simp
  also have "\<dots> \<le> length p" by (rule length_dropWhile_le)
  finally show ?thesis .
qed

lemma trim_Nil [simp]: "trim [] = []"
  by (simp add: trim_def)

lemma once_fetches:
  "\<exists>t. trace (snd (attempt_once http ctx transport attempt s)) =
        trace s @ Fetched (rq_method ctx) (rq_url ctx) (rq_headers ctx) (rq_body ctx) # t"
proof -
  define f where "f = Fetched (rq_method ctx) (rq_url ctx) (rq_headers ctx) (rq_body ctx)"
  have t: "\<exists>t. trace (snd (try_block http ctx transport attempt s)) = trace s @ f # t"
    unfolding try_block_def server_error_or_throw_def Let_def f_def [symmetric]
    by (simp split: settled.splits body.splits)
  obtain c s1 where tb: "try_block http ctx transport attempt s = (c, s1)"
    by (cases "try_block http ctx transport attempt s")
  from t tb obtain t1 where t1: "trace s1 = trace s @ f # t1" by auto
  have k: "\<exists>t. trace (snd (catch_block http ctx attempt st e s1)) = trace s1 @ t" for st e
    unfolding catch_block_def Let_def by simp
  show ?thesis
  proof (cases c)
    case Continue
    with tb t1 show ?thesis by (simp add: attempt_once_def f_def)
  next
    case (Return d)
    with tb t1 show ?thesis by (simp add: attempt_once_def f_def)
  next
    case (Throw e)
    from k [of "clock s" e] obtain t2 where "trace (snd (catch_block http ctx attempt (clock s) e s1)) = trace s1 @ t2"
      by blast
    with Throw tb t1 show ?thesis by (simp add: attempt_once_def f_def)
  qed
qed

lemma loop_attempts_mono:
  "attempts (trace s) \<le> attempts (trace (snd (attempt_loop http ctx transport attempt s)))"
proof (induction http ctx transport attempt s rule: attempt_loop.induct)
  case (1 http ctx transport attempt s)
  show ?case
  proof (cases "int attempt \<le> rq_retries ctx")
    case False
    then show ?thesis by (subst attempt_loop.simps) simp
  next
    case True
    obtain c s' where once: "attempt_once http ctx transport attempt s = (c, s')"
      by (cases "attempt_once http ctx transport attempt s")
    from once_fetches [of http ctx transport attempt s] once
    have grow: "attempts (trace s) \<le> attempts (trace s')" by auto
    show ?thesis
    proof (cases c)
      case Continue
      with "1.IH" [OF True once [symmetric]] once True grow show ?thesis
        by (subst attempt_loop.simps) simp
    next
      case (Return d)
      with once True grow show ?thesis by (subst attempt_loop.simps) simp
    next
      case (Throw e)
      with once True grow show ?thesis by (subst attempt_loop.simps) simp
    qed
  qed
qed

lemma loop_first_fetch:
  assumes "int attempt \<le> rq_retries ctx"
  shows "attempts (trace s) + 1 \<le> attempts (trace (snd (attempt_loop http ctx transport attempt s)))"
proof -
  obtain c s' where once: "attempt_once http ctx transport attempt s = (c, s')"
    by (cases "attempt_once http ctx transport attempt s")
  from once_fetches [of http ctx transport attempt s] once
  have grow: "attempts (trace s) + 1 \<le> attempts (trace s')" by auto
  show ?thesis
  proof (cases c)
    case Continue
    with once assms grow loop_attempts_mono [of s' http ctx transport "Suc attempt"] show ?thesis
      by (subst attempt_loop.simps) simp
  next
    case (Return d)
    with once assms grow show ?thesis by (subst attempt_loop.simps) simp
  next
    case (Throw e)
    with once assms grow show ?thesis by (subst attempt_loop.simps) simp
  qed
qed

lemma request_fetches:
  assumes "0 \<le> rq_retries (request_context http method path body options)"
  shows "attempts (trace s) + 1 \<le> attempts (trace (snd (request http method path body options transport s)))"
proof -
  let ?ctx = "request_context http method path body options"
  define sa where "sa = debug_log http (''[Promptella SDK] '' @ method_text method @ '' '' @ rq_url ?ctx)
      (emitted http (RequestEvent (rq_url ?ctx) method (rq_headers ?ctx)) s)"
  have rq: "request http method path body options transport s = attempt_loop http ?ctx transport 0 sa"
    by (simp add: request_def sa_def Let_def)
  have "attempts (trace sa) = attempts (trace s)" by (simp add: sa_def)
  with loop_first_fetch [of 0 ?ctx sa http transport] assms rq show ?thesis by simp
qed

subsection \<open>The checks of \<open>enhancePrompt\<close>\<close>

lemma enhancePrompt_forwards:
  assumes "length prompt \<le> 5000" "0 < length (trim prompt)"
    and "\<forall>n. maxSuggestions options = Some n \<longrightarrow> n = 0 \<or> (1 \<le> n \<and> n \<le> 10)"
    and "\<forall>cats. categories options = Some cats \<longrightarrow> set cats \<subseteq> set validCategories"
  shows "enhancePrompt sdk prompt options transport s =
           request (httpClient sdk) POST ''/api/v1/enhance-prompt'' (Some (PromptBody (trim prompt)))
             \<lparr> retries = Some 3, retryDelay = Some 1000, timeout_override = None \<rparr> transport s"
proof -
  have ne: "prompt \<noteq> []" using assms(2) by auto
  have ms: "\<not> (case maxSuggestions options of None \<Rightarrow> False | Some n \<Rightarrow> n \<noteq> 0 \<and> (n < 1 \<or> n > 10))"
    using assms(3) by (auto split: option.splits)
  have cs: "(case categories options of None \<Rightarrow> []
               | Some cats \<Rightarrow> filter (\<lambda>cat. cat \<notin> set validCategories) cats) = []"
    using assms(4) by (auto split: option.splits simp: filter_empty_conv)
  show ?thesis
    using ne assms(1,2) ms cs by (simp add: enhancePrompt_def Let_def)
qed

lemma enhancePrompt_rejects:
  assumes "prompt = [] \<or> length (trim prompt) = 0 \<or> 5000 < length prompt"
  shows "\<exists>msg. enhancePrompt sdk prompt options transport s = (Inl (ValidationError msg None), s)"
  using assms by (auto simp: enhancePrompt_def)

lemma trim_padded: "trim padded_prompt = ''a''"
proof -
  have sp: "is_space (CHR '' '')" "\<not> is_space (CHR ''a'')" by (simp_all add: is_space_def)
  have "rev padded_prompt = replicate 5000 (CHR '' '') @ ''a''"
    by (simp add: padded_prompt_def)
  moreover have "dropWhile is_space padded_prompt = padded_prompt"
    using sp by (simp add: padded_prompt_def)
  moreover have "dropWhile is_space (replicate 5000 (CHR '' '') @ ''a'') = ''a''"
    using sp by (simp add: dropWhile_append)
  ultimately show ?thesis by (simp add: trim_def)
qed

lemma trim_hello: "trim '' Write a blog post '' = ''Write a blog post''"
  by (simp add: trim_def is_space_def)

subsection \<open>Handlers that leave the registry alone\<close>

text \<open>When no handler of the name calls \<open>on\<close> or \<open>off\<close>, an emission calls every handler of
  the name once, in registration order, each on the world its predecessor left, whether or
  not it throws.\<close>

lemma guarded_call_quiet:
  assumes "snd (snd (snd h d (world s))) = []"
  shows "\<exists>s'. guarded_call dbg d h s = Inr s' \<and>
           world s' = fst (snd (snd h d (world s))) \<and>
           invoked s' = invoked s @ [fst h] \<and> eventHandlers s' = eventHandlers s"
  using assms
  by (cases "snd h d (world s)") (auto simp: guarded_call_def Let_def split: option.splits)

lemma forEach_quiet:
  assumes "\<forall>h \<in> set (handlers_of ev s). \<forall>w. snd (snd (snd h d w)) = []"
  shows "\<exists>s'. forEach (handlers_of ev) (guarded_call dbg d) n k s = Inr s' \<and>
           world s' = foldl (\<lambda>w h. fst (snd (snd h d w))) (world s) (take n (drop k (handlers_of ev s))) \<and>
           invoked s' = invoked s @ map fst (take n (drop k (handlers_of ev s))) \<and>
           eventHandlers s' = eventHandlers s"
  using assms
proof (induction n arbitrary: k s)
  case 0
  then show ?case by simp
next
  case (Suc n)
  let ?hs = "handlers_of ev s"
  show ?case
  proof (cases "k < length ?hs")
    case False
    then have "drop k ?hs = []" by simp
    with Suc.IH [of s "Suc k"] Suc.prems False show ?thesis by simp
  next
    case True
    then have mem: "?hs ! k \<in> set ?hs" by simp
    with Suc.prems have q: "snd (snd (snd (?hs ! k) d (world s))) = []" by blast
    obtain s1 where s1: "guarded_call dbg d (?hs ! k) s = Inr s1"
        "world s1 = fst (snd (snd (?hs ! k) d (world s)))"
        "invoked s1 = invoked s @ [fst (?hs ! k)]" "eventHandlers s1 = eventHandlers s"
      using guarded_call_quiet [OF q, of dbg] by blast
    have same: "handlers_of ev s1 = ?hs" using s1(4) by (simp add: handlers_of_def)
    have dr: "drop k ?hs = ?hs ! k # drop (Suc k) ?hs"
      using True by (simp add: Cons_nth_drop_Suc)
    from Suc.IH [of s1 "Suc k"] Suc.prems same
    obtain s' where "forEach (handlers_of ev) (guarded_call dbg d) n (Suc k) s1 = Inr s'"
        "world s' = foldl (\<lambda>w h. fst (snd (snd h d w))) (world s1) (take n (drop (Suc k) ?hs))"
        "invoked s' = invoked s1 @ map fst (take n (drop (Suc k) ?hs))"
        "eventHandlers s' = eventHandlers s1"
      by auto
    with True s1 dr show ?thesis by simp
  qed
qed

lemma emit_runs_quiet_handlers:
  assumes "\<forall>h \<in> set (handlers_of (name_of_event d) s). \<forall>w. snd (snd (snd h d w)) = []"
  shows "\<exists>s'. emit http d s = Inr s' \<and>
           world s' = foldl (\<lambda>w h. fst (snd (snd h d w))) (world s) (handlers_of (name_of_event d) s) \<and>
           invoked s' = invoked s @ map fst (handlers_of (name_of_event d) s)"
proof (cases "eventHandlers s (name_of_event d)")
  case None
  then show ?thesis by (simp add: emit_def handlers_of_def)
next
  case (Some hs)
  let ?s1 = "s\<lparr>trace := trace s @ [Emitted d]\<rparr>"
  have h1: "handlers_of (name_of_event d) ?s1 = hs" "handlers_of (name_of_event d) s = hs"
    using Some by (simp_all add: handlers_of_def)
  from forEach_quiet [of "name_of_event d" ?s1 d "c_debug (config http)" "length hs" 0] assms h1
  show ?thesis using Some by (auto simp: emit_def)
qed

section \<open>Results about the error taxonomy\<close>

text \<open>
  Claim C8. For a completed response whose body decodes to structured error data, the kind
  of the error built from it is determined by the status code alone: 401 gives
  Authentication, 429 RateLimit, 400 Validation and every other status Network, and the
  error carries that status code. When the body cannot be read as structured error data
  (it is not JSON, or it is \<open>null\<close>), the result is a Network error with the status code
  whose message is the raw status line \<open>HTTP <status>: <statusText>\<close>.
\<close>

theorem C8_error_kind_from_status:
  "(\<forall>e d l x. content r = Json (JObject e d l x) \<longrightarrow>
      kind_of (createErrorFromResponse now r) = kind_of_status (status r) \<and>
      statusCode_of (createErrorFromResponse now r) = Some (status r)) \<and>
   ((content r = Json JNull \<or> (\<exists>e. content r = NotJson e)) \<longrightarrow>
      createErrorFromResponse now r =
        NetworkError (''HTTP '' @ show_int (status r) @ '': '' @ statusText r) (status r) None)"
  by (auto simp: createErrorFromResponse_def kind_of_status_def generic_http_error_def)

theorem C8_error_kind_from_status_witness:
  "kind_of (createErrorFromResponse 0
      \<lparr>status = 401, statusText = ''Unauthorized'', retryAfterHeader = None,
       content = Json (JObject (Some ''bad key'') None None [])\<rparr>) = Authentication \<and>
   createErrorFromResponse 0
      \<lparr>status = 503, statusText = ''Service Unavailable'', retryAfterHeader = None,
       content = NotJson (JsError ''SyntaxError'' ''Unexpected token'')\<rparr>
     = NetworkError ''HTTP 503: Service Unavailable'' 503 None"
  using
    C8_error_kind_from_status [of
      "\<lparr>status = 401, statusText = ''Unauthorized'', retryAfterHeader = None,
        content = Json (JObject (Some ''bad key'') None None [])\<rparr>" 0]
    C8_error_kind_from_status [of
      "\<lparr>status = 503, statusText = ''Service Unavailable'', retryAfterHeader = None,
        content = NotJson (JsError ''SyntaxError'' ''Unexpected token'')\<rparr>" 0]
  by (simp add: kind_of_status_def show_int_def show_nat.simps digit_char_def)

section \<open>Results about the request executor\<close>



text \<open>
  Claim C4, as amended. When the first attempt of a call with \<open>maxRetries \<ge> 0\<close> receives
  in time a response of status 401 whose body decodes to structured error data, the
  executor performs exactly that one attempt and raises an Authentication error: no
  \<open>retry\<close> event, no sleep. (The claim as stated, for every response of status 401, fails:
  see the counterexample that follows.)
\<close>

theorem C4_unauthorized_not_retried:
  assumes ctx: "ctx = request_context http verb path body options"
    and retries: "0 \<le> rq_retries ctx"
    and t0: "transport 0 = Resolves r el" and el: "el < rq_timeout ctx"
    and st: "status r = 401" and js: "content r = Json (JObject e d l x)"
  shows "fst (request http verb path body options transport s) =
           Inl (AuthenticationError (case e of None \<Rightarrow> ''Invalid API key or Project ID'' | Some m \<Rightarrow> m)) \<and>
         attempts (trace (snd (request http verb path body options transport s))) = attempts (trace s) + 1 \<and>
         sleeps (trace (snd (request http verb path body options transport s))) = sleeps (trace s) \<and>
         filter (\<lambda>ev. name_of_event ev = EvRetry)
           (events (trace (snd (request http verb path body options transport s)))) =
         filter (\<lambda>ev. name_of_event ev = EvRetry) (events (trace s))"
proof -
  define sa where "sa = debug_log http (''[Promptella SDK] '' @ method_text verb @ '' '' @ rq_url ctx)
      (emitted http (RequestEvent (rq_url ctx) verb (rq_headers ctx)) s)"
  have rq: "request http verb path body options transport s = attempt_loop http ctx transport 0 sa"
    by (simp add: request_def ctx sa_def Let_def)
  have tra: "trace sa = trace s @ [Emitted (RequestEvent (rq_url ctx) verb (rq_headers ctx))]"
    by (simp add: sa_def)
  have err: "createErrorFromResponse (clock sa + el) r =
      AuthenticationError (case e of None \<Rightarrow> ''Invalid API key or Project ID'' | Some m \<Rightarrow> m)"
    using st js by (simp add: createErrorFromResponse_def)
  have nok: "\<not> ok r" using st by (simp add: ok_def)
  obtain sb where b: "attempt_once http ctx transport 0 sa =
        (Throw (createErrorFromResponse (clock sa + el) r), sb)"
    and trb: "trace sb = trace sa @
          [Fetched (rq_method ctx) (rq_url ctx) (rq_headers ctx) (rq_body ctx),
           Emitted (ErrorEvent (createErrorFromResponse (clock sa + el) r) el),
           Emitted (ErrorEvent (createErrorFromResponse (clock sa + el) r) el)]"
    using once_not_retried_kind [of transport 0 r el ctx sa http] t0 el nok st err by auto
  have "attempt_loop http ctx transport 0 sa = (Inl (createErrorFromResponse (clock sa + el) r), sb)"
    using loop_throw [of 0 ctx http transport sa _ sb] b retries by simp
  with rq err tra trb show ?thesis by (simp add: events_def)
qed

text \<open>With one retry allowed and a 401 whose body is not JSON, the error is a Network
  error, and it is retried: two attempts and one sleep.\<close>

theorem C4_unauthorized_not_retried_counterexample:
  "fst (request demo_client POST ''/api/v1/test-rate-limit'' (Some EmptyBody) one_retry html_unauthorized fresh)
     = Inl (NetworkError ''HTTP 401: Unauthorized'' 401 None) \<and>
   attempts (trace (snd (request demo_client POST ''/api/v1/test-rate-limit'' (Some EmptyBody) one_retry html_unauthorized fresh))) = 2 \<and>
   sleeps (trace (snd (request demo_client POST ''/api/v1/test-rate-limit'' (Some EmptyBody) one_retry html_unauthorized fresh))) = [Some 1000]"
proof -
  let ?ctx = "request_context demo_client POST ''/api/v1/test-rate-limit'' (Some EmptyBody) one_retry"
  let ?r = "plain_response 401 ''Unauthorized'' (NotJson (JsError ''SyntaxError'' ''Unexpected token < in JSON at position 0''))"
  define sa where "sa = debug_log demo_client (''[Promptella SDK] '' @ method_text POST @ '' '' @ rq_url ?ctx)
      (emitted demo_client (RequestEvent (rq_url ?ctx) POST (rq_headers ?ctx)) fresh)"
  have rq: "request demo_client POST ''/api/v1/test-rate-limit'' (Some EmptyBody) one_retry html_unauthorized fresh
      = attempt_loop demo_client ?ctx html_unauthorized 0 sa"
    by (simp add: request_def sa_def Let_def)
  have n: "rq_retries ?ctx = 1" "rq_timeout ?ctx = 30000" "rq_retryDelay ?ctx = 1000"
    by (simp_all add: demo_simps)
  have tra: "trace sa = [Emitted (RequestEvent (rq_url ?ctx) POST (rq_headers ?ctx))]"
    by (simp add: sa_def fresh_def)
  have err: "createErrorFromResponse now ?r = NetworkError ''HTTP 401: Unauthorized'' 401 None" for now
    by (simp add: demo_simps)
  have nok: "\<not> ok ?r" "status ?r = 401" by (simp_all add: ok_def plain_response_def)
  obtain sb where b: "attempt_once demo_client ?ctx html_unauthorized 0 sa = (Continue, sb)"
    and trb: "attempts (trace sb) = attempts (trace sa) + 1"
             "sleeps (trace sb) = sleeps (trace sa) @ [Some (backoff ?ctx 0)]"
    using once_client_error_retry [of html_unauthorized 0 ?r 20 ?ctx sa demo_client] nok n err
    by (auto simp: html_unauthorized_def)
  obtain sc where c: "attempt_once demo_client ?ctx html_unauthorized 1 sb =
        (Throw (createErrorFromResponse (clock sb + 20) ?r), sc)"
    and trc: "attempts (trace sc) = attempts (trace sb) + 1" "sleeps (trace sc) = sleeps (trace sb)"
    using once_http_error_last [of html_unauthorized 1 ?r 20 ?ctx demo_client sb] nok n
    by (auto simp: html_unauthorized_def)
  have "attempt_loop demo_client ?ctx html_unauthorized 0 sa = attempt_loop demo_client ?ctx html_unauthorized (Suc 0) sb"
    using loop_continue [of 0 ?ctx demo_client html_unauthorized sa sb] b n by simp
  also have "\<dots> = (Inl (createErrorFromResponse (clock sb + 20) ?r), sc)"
    using loop_throw [of "Suc 0" ?ctx demo_client html_unauthorized sb _ sc] c n by simp
  finally show ?thesis
    using rq err tra trb trc n by (simp add: backoff_def)
qed

theorem C4_unauthorized_not_retried_witness:
  "fst (request demo_client POST ''/api/v1/test-rate-limit'' (Some EmptyBody) three_retries json_unauthorized fresh)
     = Inl (AuthenticationError ''Invalid API key'') \<and>
   attempts (trace (snd (request demo_client POST ''/api/v1/test-rate-limit'' (Some EmptyBody) three_retries json_unauthorized fresh))) = 1 \<and>
   sleeps (trace (snd (request demo_client POST ''/api/v1/test-rate-limit'' (Some EmptyBody) three_retries json_unauthorized fresh))) = []"
  using C4_unauthorized_not_retried
    [where http = demo_client and verb = POST and path = "''/api/v1/test-rate-limit''"
       and body = "Some EmptyBody" and options = three_retries and transport = json_unauthorized
       and ctx = "request_context demo_client POST ''/api/v1/test-rate-limit'' (Some EmptyBody) three_retries"
       and r = "plain_response 401 ''Unauthorized'' (Json (JObject (Some ''Invalid API key'') None None []))"
       and el = 20 and e = "Some ''Invalid API key''" and d = None and l = None and x = "[]" and s = fresh]
  by (simp add: demo_simps)

text \<open>
  Claim C2 says that each attempt emits exactly one of \<open>response\<close> and \<open>error\<close> and no
  event twice. The run below is a single attempt answered by a 401 with a structured error:
  the \<open>error\<close> event is emitted twice for that attempt, once in the \<open>try\<close> block before
  \<open>throw error\<close> and once more in the \<open>catch\<close> block that receives it.
\<close>

theorem C2_error_event_twice:
  "events_per_attempt
     (trace (snd (request demo_client POST ''/api/v1/test-rate-limit'' (Some EmptyBody) three_retries json_unauthorized fresh)))
   = [[EvError, EvError]]"
proof -
  let ?ctx = "request_context demo_client POST ''/api/v1/test-rate-limit'' (Some EmptyBody) three_retries"
  let ?r = "plain_response 401 ''Unauthorized'' (Json (JObject (Some ''Invalid API key'') None None []))"
  define sa where "sa = debug_log demo_client (''[Promptella SDK] '' @ method_text POST @ '' '' @ rq_url ?ctx)
      (emitted demo_client (RequestEvent (rq_url ?ctx) POST (rq_headers ?ctx)) fresh)"
  have rq: "request demo_client POST ''/api/v1/test-rate-limit'' (Some EmptyBody) three_retries json_unauthorized fresh
      = attempt_loop demo_client ?ctx json_unauthorized 0 sa"
    by (simp add: request_def sa_def Let_def)
  have n: "rq_retries ?ctx = 3" "rq_timeout ?ctx = 30000"
    by (simp_all add: demo_simps)
  have tra: "trace sa = [Emitted (RequestEvent (rq_url ?ctx) POST (rq_headers ?ctx))]"
    by (simp add: sa_def fresh_def)
  have err: "createErrorFromResponse now ?r = AuthenticationError ''Invalid API key''" for now
    by (simp add: demo_simps)
  have nok: "\<not> ok ?r" "status ?r = 401" by (simp_all add: ok_def plain_response_def)
  obtain sb where b: "attempt_once demo_client ?ctx json_unauthorized 0 sa =
        (Throw (createErrorFromResponse (clock sa + 20) ?r), sb)"
    and trb: "trace sb = trace sa @
          [Fetched (rq_method ?ctx) (rq_url ?ctx) (rq_headers ?ctx) (rq_body ?ctx),
           Emitted (ErrorEvent (createErrorFromResponse (clock sa + 20) ?r) 20),
           Emitted (ErrorEvent (createErrorFromResponse (clock sa + 20) ?r) 20)]"
    using once_not_retried_kind [of json_unauthorized 0 ?r 20 ?ctx sa demo_client] nok n err
    by (auto simp: json_unauthorized_def)
  have "attempt_loop demo_client ?ctx json_unauthorized 0 sa = (Inl (createErrorFromResponse (clock sa + 20) ?r), sb)"
    using loop_throw [of 0 ?ctx demo_client json_unauthorized sa _ sb] b n by simp
  with rq tra trb show ?thesis by (simp add: events_per_attempt_def)
qed



text \<open>
  Claim C6 says that every attempt answered by a 429 while attempts remain sleeps
  \<open>max (retryAfterMs, baseDelay * 2 ^ attempt)\<close>, with \<open>Retry-After\<close> read in seconds and 60
  as the default. The run below has \<open>maxRetries = 3\<close> and \<open>baseDelay = 1000\<close>. Its first
  response is a 429 whose \<open>Retry-After\<close> is an HTTP date: \<open>parseInt\<close> gives \<open>NaN\<close> for it,
  \<open>Math.max\<close> of \<open>NaN\<close> and the backoff is \<open>NaN\<close>, the \<open>rateLimit\<close> and \<open>retry\<close> events carry
  \<open>NaN\<close>, and the sleep of \<open>NaN\<close> milliseconds takes no time, although the default is 60
  seconds and the backoff of the first attempt is 1000. Its second response is a 429 with
  \<open>Retry-After: 2\<close>, for which the delay is 2000 as the claim says; its third is a 200.
  The clock at the end is the three response times and the one delay of 2000.
\<close>

theorem C6_unreadable_retry_after:
  "fst (request demo_client POST ''/api/v1/test-rate-limit'' (Some EmptyBody) three_retries throttled_twice fresh) = Inr (JObject None None None ''suggestions'') \<and>
   trace (snd (request demo_client POST ''/api/v1/test-rate-limit'' (Some EmptyBody) three_retries throttled_twice fresh)) =
     [Emitted (RequestEvent (rq_url (request_context demo_client POST ''/api/v1/test-rate-limit'' (Some EmptyBody) three_retries)) POST (rq_headers (request_context demo_client POST ''/api/v1/test-rate-limit'' (Some EmptyBody) three_retries))),
      Fetched POST (rq_url (request_context demo_client POST ''/api/v1/test-rate-limit'' (Some EmptyBody) three_retries)) (rq_headers (request_context demo_client POST ''/api/v1/test-rate-limit'' (Some EmptyBody) three_retries)) (Some EmptyBody),
      Emitted (ErrorEvent (RateLimitError ''Rate limit exceeded'' (default_limits 20) None) 20),
      Emitted (RateLimitEvent (Some (default_limits 20)) None),
      Emitted (RetryEvent 1 4 None),
      Slept None,
      Fetched POST (rq_url (request_context demo_client POST ''/api/v1/test-rate-limit'' (Some EmptyBody) three_retries)) (rq_headers (request_context demo_client POST ''/api/v1/test-rate-limit'' (Some EmptyBody) three_retries)) (Some EmptyBody),
      Emitted (ErrorEvent (RateLimitError ''Rate limit exceeded'' (default_limits 40) (Some 2)) 20),
      Emitted (RateLimitEvent (Some (default_limits 40)) (Some 2)),
      Emitted (RetryEvent 2 4 (Some 2000)),
      Slept (Some 2000),
      Fetched POST (rq_url (request_context demo_client POST ''/api/v1/test-rate-limit'' (Some EmptyBody) three_retries)) (rq_headers (request_context demo_client POST ''/api/v1/test-rate-limit'' (Some EmptyBody) three_retries)) (Some EmptyBody),
      Emitted (ResponseEvent 200 (JObject None None None ''suggestions'') 20)] \<and>
   clock (snd (request demo_client POST ''/api/v1/test-rate-limit'' (Some EmptyBody) three_retries throttled_twice fresh)) = 2060 \<and>
   backoff (request_context demo_client POST ''/api/v1/test-rate-limit'' (Some EmptyBody) three_retries) 0 = 1000"
proof -
  let ?ctx = "request_context demo_client POST ''/api/v1/test-rate-limit'' (Some EmptyBody) three_retries"
  let ?ok = "plain_response 200 ''OK'' (Json (JObject None None None ''suggestions''))"
  define sa where "sa = debug_log demo_client (''[Promptella SDK] '' @ method_text POST @ '' '' @ rq_url ?ctx)
      (emitted demo_client (RequestEvent (rq_url ?ctx) POST (rq_headers ?ctx)) fresh)"
  have rq: "request demo_client POST ''/api/v1/test-rate-limit'' (Some EmptyBody) three_retries throttled_twice fresh = attempt_loop demo_client ?ctx throttled_twice 0 sa"
    by (simp add: request_def sa_def Let_def)
  have n: "rq_retries ?ctx = 3" "rq_timeout ?ctx = 30000" "rq_retryDelay ?ctx = 1000"
          "rq_method ?ctx = POST" "rq_body ?ctx = Some EmptyBody"
    by (simp_all add: demo_simps)
  have tra: "trace sa = [Emitted (RequestEvent (rq_url ?ctx) POST (rq_headers ?ctx))]"
    and cla: "clock sa = 0"
    by (simp_all add: sa_def fresh_def)
  have nan: "js_times (parseInt10 (retryAfter_or_default dated_429)) 1000 = None"
    by (simp add: dated_429_def retryAfter_or_default_def parseInt10_def is_space_def is_digit_def
        js_times_def)
  have two: "js_times (parseInt10 (retryAfter_or_default too_many)) 1000 = Some 2000"
    by (simp add: too_many_def retryAfter_or_default_def parseInt10_2 js_times_def)
  have err: "createErrorFromResponse 20 dated_429 =
      RateLimitError ''Rate limit exceeded'' (default_limits 20) None"
    by (simp add: createErrorFromResponse_def dated_429_def retryAfter_or_default_def
        message_or_empty_def parseInt10_def is_space_def is_digit_def)
  have err2: "createErrorFromResponse 40 too_many =
      RateLimitError ''Rate limit exceeded'' (default_limits 40) (Some 2)"
    by (simp add: createErrorFromResponse_def too_many_def retryAfter_or_default_def
        message_or_empty_def parseInt10_2)
  obtain sb where b: "attempt_once demo_client ?ctx throttled_twice 0 sa = (Continue, sb)"
    and trb: "trace sb = trace sa @
          [Fetched POST (rq_url ?ctx) (rq_headers ?ctx) (Some EmptyBody),
           Emitted (ErrorEvent (RateLimitError ''Rate limit exceeded'' (default_limits 20) None) 20),
           Emitted (RateLimitEvent (Some (default_limits 20)) None),
           Emitted (RetryEvent 1 4 None),
           Slept None]"
    and clb: "clock sb = 20"
    using once_rate_limited_retry [of throttled_twice 0 dated_429 20 ?ctx demo_client sa] n nan err cla
    by (auto simp: throttled_twice_def dated_429_def js_max_def js_div1000_def)
  obtain sc where c: "attempt_once demo_client ?ctx throttled_twice 1 sb = (Continue, sc)"
    and trc: "trace sc = trace sb @
          [Fetched POST (rq_url ?ctx) (rq_headers ?ctx) (Some EmptyBody),
           Emitted (ErrorEvent (RateLimitError ''Rate limit exceeded'' (default_limits 40) (Some 2)) 20),
           Emitted (RateLimitEvent (Some (default_limits 40)) (Some 2)),
           Emitted (RetryEvent 2 4 (Some 2000)),
           Slept (Some 2000)]"
    and clc: "clock sc = 2040"
    using once_rate_limited_retry [of throttled_twice 1 too_many 20 ?ctx demo_client sb] n two err2 clb
    by (auto simp: throttled_twice_def too_many_def js_max_def js_div1000_def backoff_def)
  have okr: "ok ?ok" "status ?ok = 200" "content ?ok = Json (JObject None None None ''suggestions'')"
    by (simp_all add: ok_def plain_response_def)
  obtain sd where d: "attempt_once demo_client ?ctx throttled_twice 2 sc =
        (Return (JObject None None None ''suggestions''), sd)"
    and trd: "trace sd = trace sc @
          [Fetched POST (rq_url ?ctx) (rq_headers ?ctx) (Some EmptyBody),
           Emitted (ResponseEvent 200 (JObject None None None ''suggestions'') 20)]"
    and cld: "clock sd = 2060"
    using once_success [of throttled_twice 2 ?ok 20 ?ctx "JObject None None None ''suggestions''" demo_client sc]
      n okr clc
    by (auto simp: throttled_twice_def)
  have "attempt_loop demo_client ?ctx throttled_twice 0 sa = attempt_loop demo_client ?ctx throttled_twice (Suc 0) sb"
    using loop_continue [of 0 ?ctx demo_client throttled_twice sa sb] b n by simp
  also have "\<dots> = attempt_loop demo_client ?ctx throttled_twice (Suc (Suc 0)) sc"
    using loop_continue [of "Suc 0" ?ctx demo_client throttled_twice sb sc] c n by simp
  also have "\<dots> = (Inr (JObject None None None ''suggestions''), sd)"
    using loop_return [of "Suc (Suc 0)" ?ctx demo_client throttled_twice sc _ sd] d n
    by (simp add: numeral_2_eq_2)
  finally have res: "request demo_client POST ''/api/v1/test-rate-limit'' (Some EmptyBody) three_retries throttled_twice fresh = (Inr (JObject None None None ''suggestions''), sd)"
    using rq by simp
  have "backoff ?ctx 0 = 1000" using n by (simp add: backoff_def)
  with res tra trb trc trd cld show ?thesis by simp
qed

section \<open>Results about construction\<close>




section \<open>Results about the enhancement client\<close>

text \<open>
  Claim C3, as amended. A prompt of at most 5000 characters before trimming and of positive
  length after trimming, with options that pass the option checks, is forwarded to the
  executor: \<open>enhancePrompt\<close> is the executor's run on the fixed path with the trimmed prompt
  and three retries, and that run calls \<open>fetch\<close> at least once. A prompt that is empty,
  white space only, or longer than 5000 characters (before trimming, hence also every
  prompt longer than 5000 characters after trimming) raises a Validation error and leaves
  the state as it was: no attempt, no event.
\<close>

theorem C3_prompt_validation:
  "(length prompt \<le> 5000 \<and> 0 < length (trim prompt) \<and>
    (\<forall>n. maxSuggestions options = Some n \<longrightarrow> n = 0 \<or> (1 \<le> n \<and> n \<le> 10)) \<and>
    (\<forall>cats. categories options = Some cats \<longrightarrow> set cats \<subseteq> set validCategories) \<longrightarrow>
      enhancePrompt sdk prompt options transport s =
        request (httpClient sdk) POST ''/api/v1/enhance-prompt'' (Some (PromptBody (trim prompt)))
          \<lparr> retries = Some 3, retryDelay = Some 1000, timeout_override = None \<rparr> transport s \<and>
      attempts (trace s) + 1 \<le> attempts (trace (snd (enhancePrompt sdk prompt options transport s)))) \<and>
   (prompt = [] \<or> length (trim prompt) = 0 \<or> 5000 < length prompt \<or> 5000 < length (trim prompt) \<longrightarrow>
      (\<exists>msg. fst (enhancePrompt sdk prompt options transport s) = Inl (ValidationError msg None)) \<and>
      snd (enhancePrompt sdk prompt options transport s) = s)"
proof (intro conjI impI)
  assume a: "length prompt \<le> 5000 \<and> 0 < length (trim prompt) \<and>
    (\<forall>n. maxSuggestions options = Some n \<longrightarrow> n = 0 \<or> (1 \<le> n \<and> n \<le> 10)) \<and>
    (\<forall>cats. categories options = Some cats \<longrightarrow> set cats \<subseteq> set validCategories)"
  then show fw: "enhancePrompt sdk prompt options transport s =
        request (httpClient sdk) POST ''/api/v1/enhance-prompt'' (Some (PromptBody (trim prompt)))
          \<lparr> retries = Some 3, retryDelay = Some 1000, timeout_override = None \<rparr> transport s"
    using enhancePrompt_forwards [of prompt options sdk transport s] by blast
  have "0 \<le> rq_retries (request_context (httpClient sdk) POST ''/api/v1/enhance-prompt''
      (Some (PromptBody (trim prompt))) \<lparr> retries = Some 3, retryDelay = Some 1000, timeout_override = None \<rparr>)"
    by (simp add: request_context_def)
  from request_fetches [OF this, of s transport] fw
  show "attempts (trace s) + 1 \<le> attempts (trace (snd (enhancePrompt sdk prompt options transport s)))"
    by simp
next
  assume b: "prompt = [] \<or> length (trim prompt) = 0 \<or> 5000 < length prompt \<or> 5000 < length (trim prompt)"
  have "prompt = [] \<or> length (trim prompt) = 0 \<or> 5000 < length prompt"
    using b length_trim_le [of prompt] by auto
  from enhancePrompt_rejects [OF this, of sdk options transport s]
  obtain msg where m: "enhancePrompt sdk prompt options transport s = (Inl (ValidationError msg None), s)"
    by blast
  from m show "\<exists>msg. fst (enhancePrompt sdk prompt options transport s) = Inl (ValidationError msg None)"
    by simp
  from m show "snd (enhancePrompt sdk prompt options transport s) = s" by simp
qed

text \<open>The claim as stated fails for a prompt whose length is in range only after trimming:
  one letter followed by 5000 spaces has trimmed length 1 and is rejected.\<close>

theorem C3_prompt_validation_counterexample:
  "length (trim padded_prompt) = 1 \<and>
   enhancePrompt demo_sdk padded_prompt default_options hangs fresh =
     (Inl (ValidationError ''Prompt cannot exceed 5000 characters'' None), fresh)"
  by (simp add: trim_padded) (simp add: enhancePrompt_def padded_prompt_def)

theorem C3_prompt_validation_witness:
  "enhancePrompt demo_sdk '' Write a blog post '' default_options hangs fresh =
     request demo_client POST ''/api/v1/enhance-prompt'' (Some (PromptBody ''Write a blog post''))
       \<lparr> retries = Some 3, retryDelay = Some 1000, timeout_override = None \<rparr> hangs fresh \<and>
   fst (enhancePrompt demo_sdk ''   '' default_options hangs fresh) =
     Inl (ValidationError ''Prompt cannot be empty or only whitespace'' None) \<and>
   snd (enhancePrompt demo_sdk ''   '' default_options hangs fresh) = fresh"
  using C3_prompt_validation [of "'' Write a blog post ''" default_options demo_sdk hangs fresh]
        C3_prompt_validation [of "''   ''" default_options demo_sdk hangs fresh]
  by (simp add: trim_hello default_options_def demo_sdk_def)
     (simp add: enhancePrompt_def trim_def is_space_def)

text \<open>
  Claim C10. With \<open>maxSuggestions\<close> equal to 0 (and a prompt and categories that pass their
  checks) no Validation error is raised and the request goes to the executor, which calls
  \<open>fetch\<close> at least once; a value that is not 0 and lies outside the range from 1 to 10 is
  rejected with the Validation error of the option check.
\<close>

theorem C10_zero_maxSuggestions:
  "(maxSuggestions options = Some 0 \<and> length prompt \<le> 5000 \<and> 0 < length (trim prompt) \<and>
    (\<forall>cats. categories options = Some cats \<longrightarrow> set cats \<subseteq> set validCategories) \<longrightarrow>
      enhancePrompt sdk prompt options transport s =
        request (httpClient sdk) POST ''/api/v1/enhance-prompt'' (Some (PromptBody (trim prompt)))
          \<lparr> retries = Some 3, retryDelay = Some 1000, timeout_override = None \<rparr> transport s \<and>
      attempts (trace s) + 1 \<le> attempts (trace (snd (enhancePrompt sdk prompt options transport s)))) \<and>
   (maxSuggestions options = Some n \<and> n \<noteq> 0 \<and> (n < 1 \<or> 10 < n) \<and>
    length prompt \<le> 5000 \<and> 0 < length (trim prompt) \<longrightarrow>
      enhancePrompt sdk prompt options transport s =
        (Inl (ValidationError ''maxSuggestions must be between 1 and 10'' None), s))"
proof (intro conjI impI)
  assume a: "maxSuggestions options = Some 0 \<and> length prompt \<le> 5000 \<and> 0 < length (trim prompt) \<and>
    (\<forall>cats. categories options = Some cats \<longrightarrow> set cats \<subseteq> set validCategories)"
  then show fw: "enhancePrompt sdk prompt options transport s =
        request (httpClient sdk) POST ''/api/v1/enhance-prompt'' (Some (PromptBody (trim prompt)))
          \<lparr> retries = Some 3, retryDelay = Some 1000, timeout_override = None \<rparr> transport s"
    using enhancePrompt_forwards [of prompt options sdk transport s] by simp
  have "0 \<le> rq_retries (request_context (httpClient sdk) POST ''/api/v1/enhance-prompt''
      (Some (PromptBody (trim prompt))) \<lparr> retries = Some 3, retryDelay = Some 1000, timeout_override = None \<rparr>)"
    by (simp add: request_context_def)
  from request_fetches [OF this, of s transport] fw
  show "attempts (trace s) + 1 \<le> attempts (trace (snd (enhancePrompt sdk prompt options transport s)))"
    by simp
next
  assume b: "maxSuggestions options = Some n \<and> n \<noteq> 0 \<and> (n < 1 \<or> 10 < n) \<and>
    length prompt \<le> 5000 \<and> 0 < length (trim prompt)"
  then have "prompt \<noteq> []" by auto
  with b show "enhancePrompt sdk prompt options transport s =
        (Inl (ValidationError ''maxSuggestions must be between 1 and 10'' None), s)"
    by (auto simp: enhancePrompt_def)
qed

theorem C10_zero_maxSuggestions_witness:
  "enhancePrompt demo_sdk '' Write a blog post '' zero_suggestions hangs fresh =
     request demo_client POST ''/api/v1/enhance-prompt'' (Some (PromptBody ''Write a blog post''))
       \<lparr> retries = Some 3, retryDelay = Some 1000, timeout_override = None \<rparr> hangs fresh \<and>
   enhancePrompt demo_sdk '' Write a blog post '' eleven_suggestions hangs fresh =
     (Inl (ValidationError ''maxSuggestions must be between 1 and 10'' None), fresh)"
  using C10_zero_maxSuggestions [of zero_suggestions "'' Write a blog post ''" demo_sdk hangs fresh 0]
        C10_zero_maxSuggestions [of eleven_suggestions "'' Write a blog post ''" demo_sdk hangs fresh 11]
  by (simp add: trim_hello zero_suggestions_def eleven_suggestions_def demo_sdk_def validCategories_def)

section \<open>Results about the event emitter\<close>

text \<open>
  Claim C9 says that an emission invokes every handler registered for the name, in
  registration order. Below, two handlers are registered for \<open>retry\<close>; the first unregisters
  itself when called. \<open>emit\<close> runs \<open>forEach\<close> on the registry's own array, which \<open>off\<close>
  splices: after the first call the second handler sits at index 0, index 1 is gone, and
  the second handler, still registered, is never invoked.
\<close>

theorem C9_self_removal_skips_next:
  "handlers_of EvRetry (on EvRetry (2, plain_handler) (on EvRetry (1, once_handler) empty_log)) = [(1, once_handler), (2, plain_handler)] \<and>
   invoked (emitted bare_client (RetryEvent 1 4 (Some 1000)) (on EvRetry (2, plain_handler) (on EvRetry (1, once_handler) empty_log))) = [1] \<and>
   world (emitted bare_client (RetryEvent 1 4 (Some 1000)) (on EvRetry (2, plain_handler) (on EvRetry (1, once_handler) empty_log))) = [''first''] \<and>
   handlers_of EvRetry (emitted bare_client (RetryEvent 1 4 (Some 1000)) (on EvRetry (2, plain_handler) (on EvRetry (1, once_handler) empty_log))) = [(2, plain_handler)]"
  by (simp add: emitted_def emit_def handlers_of_def on_def off_def guarded_call_def empty_log_def
      once_handler_def plain_handler_def bare_client_def Let_def numeral_2_eq_2)

end
